theory Spec2Isabelle
  imports Complex_Main "HOL-Library.Word"
begin

section \<open>The search query layer of indigo (search/query.go)\<close>

text \<open>
  A shallow embedding of \<^verbatim>\<open>search/query.go\<close>: the parameter check
  \<^verbatim>\<open>checkParams\<close>, the four public operations \<^verbatim>\<open>DoSearchPosts\<close>,
  \<^verbatim>\<open>DoSearchProfiles\<close>, \<^verbatim>\<open>DoSearchProfilesTypeahead\<close> and
  \<^verbatim>\<open>DoSearchGeneric\<close>, and the helper \<^verbatim>\<open>doSearch\<close> they all end in.
\<close>

subsection \<open>Values\<close>

text \<open>
  Go's \<^verbatim>\<open>int\<close> on the 64-bit platforms the service runs on: a 64-bit two's complement
  integer whose \<open>+\<close> wraps around. Comparisons are signed, so they read the word
  through \<open>sint\<close>.
\<close>

type_synonym go_int = "64 word"

text \<open>
  A \<^verbatim>\<open>float64\<close>, as the real number a finite value denotes. The only float the
  source writes is the literal \<^verbatim>\<open>1.0\<close>.
\<close>

datatype float64 = Float64 real

text \<open>
  Go errors. \<open>Errorf msg\<close> is \<^verbatim>\<open>fmt.Errorf(msg)\<close> and \<open>Wrapf msg e\<close> is
  \<^verbatim>\<open>fmt.Errorf(msg + "%w", e)\<close>. The remaining constructors are errors that come out
  of the libraries the source calls: \<open>LibError\<close> is any error of the JSON encoder or of
  the engine client, \<open>SyntaxError\<close> and \<open>UnmarshalTypeError\<close> are the two failures of
  \<^verbatim>\<open>encoding/json\<close>'s decoder (the latter with the JSON kind it met and the Go type
  it had to fill).
\<close>

datatype error =
    Errorf string
  | Wrapf string error
  | LibError string
  | SyntaxError
  | UnmarshalTypeError string string

subsection \<open>The parameter check\<close>

text \<open>
  \<^verbatim>\<open>
  func checkParams(offset, size int) error {
      if offset+size > 5000 || size > 1000 || offset > 1000 || offset < 0 || size < 0 {
          return fmt.Errorf("disallowed size/offset parameters")
      }
      return nil
  }
  \<close>
  \<open>None\<close> is Go's \<^verbatim>\<open>nil\<close> error. The sum \<open>offset + size\<close> is the wrapping sum of
  the machine.
\<close>

definition checkParams :: "go_int \<Rightarrow> go_int \<Rightarrow> error option" where
  "checkParams offset size' =
     (if sint (offset + size') > 5000 \<or> sint size' > 1000 \<or> sint offset > 1000
         \<or> sint offset < 0 \<or> sint size' < 0
      then Some (Errorf ''disallowed size/offset parameters'')
      else None)"

subsection \<open>Structured queries\<close>

text \<open>
  The query bodies are Go values of type \<^verbatim>\<open>map[string]interface{}\<close>. \<open>QMap\<close> is such a
  map, written as the key/value pairs of the map literal in source order (its keys are
  distinct in every literal of the source); \<open>QSlice\<close> is a \<^verbatim>\<open>[]interface{}\<close> and
  \<open>QStrings\<close> a \<^verbatim>\<open>[]string\<close>.
\<close>

datatype qval =
    QString string
  | QInt go_int
  | QBool bool
  | QFloat float64
  | QStrings "string list"
  | QSlice "qval list"
  | QMap "(string \<times> qval) list"

text \<open>\<open>qget k v\<close> is the Go lookup \<^verbatim>\<open>v[k]\<close> on a map, \<open>qpath\<close> a chain of them.\<close>

fun qget :: "string \<Rightarrow> qval \<Rightarrow> qval option" where
  "qget k (QMap kvs) = map_of kvs k"
| "qget k v = None"

fun qpath :: "string list \<Rightarrow> qval \<Rightarrow> qval option" where
  "qpath [] v = Some v"
| "qpath (k # ks) v = (case qget k v of None \<Rightarrow> None | Some v' \<Rightarrow> qpath ks v')"

fun qkeys :: "qval \<Rightarrow> string list" where
  "qkeys (QMap kvs) = map fst kvs"
| "qkeys v = []"

subsection \<open>JSON documents and the response types\<close>

text \<open>
  A JSON number keeps what the decoder looks at. \<open>Integral n\<close> is a literal with no
  fraction and no exponent, denoting \<open>n\<close>; \<open>Decimal m e\<close> is a literal with a fraction
  or an exponent part, denoting \<open>m \<cdot> 10\<^sup>e\<close> (so \<^verbatim>\<open>0.5\<close> is \<open>Decimal 5 (- 1)\<close> and
  \<^verbatim>\<open>1e2\<close> is \<open>Decimal 1 2\<close>). In an object the members stay in document order,
  duplicates included.
\<close>

datatype json_number = Integral int | Decimal int int

fun numberValue :: "json_number \<Rightarrow> real" where
  "numberValue (Integral n) = of_int n"
| "numberValue (Decimal m e) =
     (if 0 \<le> e then of_int m * 10 ^ nat e else of_int m / 10 ^ nat (- e))"

datatype json =
    JNull
  | JBool bool
  | JNumber json_number
  | JString string
  | JArray "json list"
  | JObject "(string \<times> json) list"

text \<open>
  A Go slice, as far as the decoder can tell slices apart: \<open>elems\<close> are its elements,
  and \<open>spare\<close> are the elements that an earlier, longer content left behind it in the
  same backing array. Whatever lies beyond is zeroed memory. A nil slice and an empty
  one with nothing behind it are both \<open>\<lparr>elems = [], spare = []\<rparr>\<close>.
\<close>

record 'a slice =
  elems :: "'a list"
  spare :: "'a list"

text \<open>
  \<^verbatim>\<open>EsSearchHit\<close>, \<^verbatim>\<open>EsSearchHits\<close> and \<^verbatim>\<open>EsSearchResponse\<close>. The anonymous struct
  of the field \<^verbatim>\<open>Total\<close> is the record \<open>EsSearchHitsTotal\<close>; the inner field
  \<^verbatim>\<open>EsSearchHits.Hits\<close> is called \<open>HitList\<close>, since a field name is one constant in
  HOL. A \<^verbatim>\<open>json.RawMessage\<close> is the JSON value its bytes hold, \<open>None\<close> when it is nil.
  A \<^verbatim>\<open>float64\<close> read from a document is kept as the number its literal denotes; the
  rounding to the nearest binary value is not modelled.
\<close>

record EsSearchHit =
  Index :: string
  ID :: string
  Score :: float64
  Source :: "json option"

record EsSearchHitsTotal =
  Value :: go_int
  Relation :: string

record EsSearchHits =
  Total :: EsSearchHitsTotal
  MaxScore :: float64
  HitList :: "EsSearchHit slice"

record EsSearchResponse =
  Took :: go_int
  TimedOut :: bool
  Hits :: EsSearchHits

text \<open>The zero values of the types; \<^verbatim>\<open>var out EsSearchResponse\<close> starts from the last.\<close>

definition zeroEsSearchHit :: EsSearchHit where
  "zeroEsSearchHit = \<lparr>Index = [], ID = [], Score = Float64 0, Source = None\<rparr>"

definition zeroEsSearchHits :: EsSearchHits where
  "zeroEsSearchHits =
     \<lparr>Total = \<lparr>Value = 0, Relation = []\<rparr>, MaxScore = Float64 0,
      HitList = \<lparr>elems = [], spare = []\<rparr>\<rparr>"

definition zeroEsSearchResponse :: EsSearchResponse where
  "zeroEsSearchResponse = \<lparr>Took = 0, TimedOut = False, Hits = zeroEsSearchHits\<rparr>"

subsection \<open>The engine and the libraries\<close>

text \<open>
  What \<^verbatim>\<open>escli.Search\<close> is called with: the four options of the call set the context,
  the index list, the body and the track-total-hits flag of the request
  (\<open>None\<close> is a flag that was never set).
\<close>

record 'ctx SearchRequest =
  req_Context :: 'ctx
  req_Index :: "string list"
  req_Body :: string
  req_TrackTotalHits :: "bool option"

text \<open>
  What the engine answers: a status code, which \<^verbatim>\<open>doSearch\<close> never reads, and a body.
  The body is \<open>WellFormed v\<close> when the first JSON value of the stream can be read and is
  \<open>v\<close>, and \<open>Malformed\<close> when it cannot (a syntax error, an empty or a cut-off body).
\<close>

datatype http_body = Malformed | WellFormed json

record Response =
  res_StatusCode :: nat
  res_Body :: http_body

text \<open>
  The code outside the repository that \<^verbatim>\<open>doSearch\<close> calls with effects is a
  parameter: \<open>jsonEncode\<close> is \<^verbatim>\<open>json.NewEncoder(&buf).Encode(query)\<close> (the bytes written,
  or its error) and \<open>esSearch\<close> is the engine client's \<^verbatim>\<open>Search\<close> (a response, or its
  error).
\<close>

record 'ctx env =
  jsonEncode :: "qval \<Rightarrow> error + string"
  esSearch :: "'ctx SearchRequest \<Rightarrow> error + Response"

text \<open>
  The effects of a call, in order: a line of the structured logger
  (\<^verbatim>\<open>slog.Warn(msg, "index", index, "query", query)\<close>), a search request sent to the
  engine, and the deferred \<^verbatim>\<open>res.Body.Close()\<close>.
\<close>

datatype 'ctx event =
    SlogWarn string string qval
  | EngineSearch "'ctx SearchRequest"
  | BodyClose

text \<open>
  Modelled from the spec: \<^verbatim>\<open>log.Fatalf\<close>. The declaration of the package's \<^verbatim>\<open>log\<close>
  is not in \<^verbatim>\<open>query.go\<close>; the spec describes the call as a process-level abort. So a call
  either ends the process (\<open>Fatalf format err\<close>) or returns to its caller (\<open>Return r\<close>).
\<close>

datatype 'a outcome = Fatalf string error | Return 'a

text \<open>
  The Go result pair \<^verbatim>\<open>(*EsSearchResponse, error)\<close>: \<open>Inl err\<close> is \<^verbatim>\<open>(nil, err)\<close> and
  \<open>Inr out\<close> is \<^verbatim>\<open>(&out, nil)\<close>.
\<close>

type_synonym search_result = "(error + EsSearchResponse) outcome"

subsection \<open>Decoding the response\<close>

text \<open>
  \<^verbatim>\<open>json.NewDecoder(res.Body).Decode(&out)\<close>, for \<open>out\<close> of type
  \<^verbatim>\<open>EsSearchResponse\<close>. The decoder is Go's \<^verbatim>\<open>encoding/json\<close>; what follows is its
  behaviour at the structs declared in \<^verbatim>\<open>query.go\<close>:
  \<^item> a member of a JSON object goes to the field whose name (its \<^verbatim>\<open>json\<close> tag, or the
    Go name of a field without one) is the member's key, or else to the first field whose
    name equals the key under case folding; a key that names no field is skipped;
  \<^item> JSON \<^verbatim>\<open>null\<close> leaves an \<^verbatim>\<open>int\<close>, a \<^verbatim>\<open>bool\<close>, a \<^verbatim>\<open>string\<close>, a \<^verbatim>\<open>float64\<close> and
    a struct as they are, and makes a slice nil;
  \<^item> an \<^verbatim>\<open>int\<close> takes an integer literal in the range of the type, a \<^verbatim>\<open>float64\<close> any
    number that does not overflow, a \<^verbatim>\<open>bool\<close> takes \<^verbatim>\<open>true\<close> or \<^verbatim>\<open>false\<close>, a
    \<^verbatim>\<open>string\<close> a string, a struct an object, a slice an array, and a
    \<^verbatim>\<open>json.RawMessage\<close> takes any value, \<^verbatim>\<open>null\<close> included;
  \<^item> any other JSON value is an \<^verbatim>\<open>UnmarshalTypeError\<close>, which the decoder saves (the
    first one wins) while it goes on with the rest of the document, and returns at the
    end.
  A storer takes the JSON value and the Go value as it stands, and gives the Go value
  afterwards and the error met, if any.
\<close>

type_synonym 'a storer = "json \<Rightarrow> 'a \<Rightarrow> 'a \<times> error option"

text \<open>
  The case folding of keys, on the bytes of the UTF-8 text: ASCII letters go to upper
  case, and so do the two letters outside ASCII that fold to an ASCII one, U+017F
  (bytes C5 BF, to S) and U+212A (bytes E2 84 AA, to K). Every other byte stays, so a
  key with any other character outside ASCII folds to no field name of the structs.
\<close>

fun foldName :: "string \<Rightarrow> string" where
  "foldName [] = []"
| "foldName (c # cs) =
     (let n = (of_char c :: nat) in
      if 97 \<le> n \<and> n \<le> 122 then char_of (n - 32) # foldName cs
      else if n = 197 \<and> take 1 cs = [char_of (191 :: nat)]
        then CHR ''S'' # foldName (drop 1 cs)
      else if n = 226 \<and> take 2 cs = [char_of (132 :: nat), char_of (170 :: nat)]
        then CHR ''K'' # foldName (drop 2 cs)
      else c # foldName cs)"

fun jsonKind :: "json \<Rightarrow> string" where
  "jsonKind JNull = ''null''"
| "jsonKind (JBool b) = ''bool''"
| "jsonKind (JNumber n) = ''number''"
| "jsonKind (JString s) = ''string''"
| "jsonKind (JArray vs) = ''array''"
| "jsonKind (JObject kvs) = ''object''"

text \<open>A JSON value stored into an \<^verbatim>\<open>int\<close>, a \<^verbatim>\<open>bool\<close> and a \<^verbatim>\<open>string\<close>.\<close>

fun storeInt :: "go_int storer" where
  "storeInt JNull cur = (cur, None)"
| "storeInt (JNumber (Integral n)) cur =
     (if - (2 ^ 63) \<le> n \<and> n < 2 ^ 63 then (word_of_int n, None)
      else (cur, Some (UnmarshalTypeError ''number'' ''int'')))"
| "storeInt v cur = (cur, Some (UnmarshalTypeError (jsonKind v) ''int''))"

fun storeBool :: "bool storer" where
  "storeBool JNull cur = (cur, None)"
| "storeBool (JBool b) cur = (b, None)"
| "storeBool v cur = (cur, Some (UnmarshalTypeError (jsonKind v) ''bool''))"

fun storeString :: "string storer" where
  "storeString JNull cur = (cur, None)"
| "storeString (JString s) cur = (s, None)"
| "storeString v cur = (cur, Some (UnmarshalTypeError (jsonKind v) ''string''))"

text \<open>
  \<^verbatim>\<open>strconv.ParseFloat(lit, 64)\<close> fails when the number rounds to an infinity, that is
  from \<open>2\<^sup>1\<^sup>0\<^sup>2\<^sup>4 - 2\<^sup>9\<^sup>7\<^sup>0\<close> on in absolute value: half a unit in the last place above the
  largest \<^verbatim>\<open>float64\<close>.
\<close>

definition parseFloat :: "json_number \<Rightarrow> float64 option" where
  "parseFloat n =
     (if \<bar>numberValue n\<bar> < 2 ^ 1024 - 2 ^ 970 then Some (Float64 (numberValue n)) else None)"

fun storeFloat :: "float64 storer" where
  "storeFloat JNull cur = (cur, None)"
| "storeFloat (JNumber n) cur =
     (case parseFloat n of
        Some x \<Rightarrow> (x, None)
      | None \<Rightarrow> (cur, Some (UnmarshalTypeError ''number'' ''float64'')))"
| "storeFloat v cur = (cur, Some (UnmarshalTypeError (jsonKind v) ''float64''))"

text \<open>A \<^verbatim>\<open>json.RawMessage\<close> copies the text of the value, whatever it is.\<close>

definition storeRawMessage :: "json option storer" where
  "storeRawMessage v cur = (Some v, None)"

text \<open>The decoder keeps the first error it saved.\<close>

definition saveError :: "error option \<Rightarrow> error option \<Rightarrow> error option" where
  "saveError saved e = (case saved of None \<Rightarrow> e | Some e0 \<Rightarrow> Some e0)"

text \<open>
  A struct, to the decoder, is the list of its fields: the name of each, and how a
  value is stored into it. \<open>field get upd store\<close> is the field read by \<open>get\<close> and
  written by \<open>upd\<close>, of a type filled by \<open>store\<close>.
\<close>

definition field :: "('s \<Rightarrow> 'a) \<Rightarrow> (('a \<Rightarrow> 'a) \<Rightarrow> 's \<Rightarrow> 's) \<Rightarrow> 'a storer \<Rightarrow> 's storer" where
  "field get upd store v out = (case store v (get out) of (x, e) \<Rightarrow> (upd (\<lambda>old. x) out, e))"

text \<open>The field a key names: by its name, else the first by its folded name.\<close>

definition findField :: "(string \<times> 's storer) list \<Rightarrow> string \<Rightarrow> (string \<times> 's storer) option" where
  "findField flds key =
     (case find (\<lambda>f. fst f = key) flds of
        Some f \<Rightarrow> Some f
      | None \<Rightarrow> find (\<lambda>f. foldName (fst f) = foldName key) flds)"

text \<open>One member of an object, stored into the struct as it stands.\<close>

definition decodeMember :: "(string \<times> 's storer) list \<Rightarrow> string \<times> json \<Rightarrow> 's \<Rightarrow> 's \<times> error option" where
  "decodeMember flds kv out =
     (case findField flds (fst kv) of
        None \<Rightarrow> (out, None)
      | Some f \<Rightarrow> snd f (snd kv) out)"

text \<open>The members of an object, in document order.\<close>

fun decodeObject ::
  "(string \<times> 's storer) list \<Rightarrow> (string \<times> json) list \<Rightarrow> 's \<times> error option
     \<Rightarrow> 's \<times> error option" where
  "decodeObject flds [] st = st"
| "decodeObject flds (kv # kvs) st =
     decodeObject flds kvs
       (case decodeMember flds kv (fst st) of
          (out, e) \<Rightarrow> (out, saveError (snd st) e))"

text \<open>A JSON value stored into a struct of the type called \<open>tyname\<close>.\<close>

definition unmarshalStruct :: "string \<Rightarrow> (string \<times> 's storer) list \<Rightarrow> 's storer" where
  "unmarshalStruct tyname flds v out =
     (case v of
        JNull \<Rightarrow> (out, None)
      | JObject kvs \<Rightarrow> decodeObject flds kvs (out, None)
      | _ \<Rightarrow> (out, Some (UnmarshalTypeError (jsonKind v) tyname)))"

text \<open>
  \<^verbatim>\<open>
  type EsSearchHit struct {
      Index  string          `json:"_index"`
      ID     string          `json:"_id"`
      Score  float64         `json:"_score"`
      Source json.RawMessage `json:"_source"`
  }
  \<close>
\<close>

definition EsSearchHit_fields :: "(string \<times> EsSearchHit storer) list" where
  "EsSearchHit_fields =
     [(''_index'', field Index Index_update storeString),
      (''_id'', field ID ID_update storeString),
      (''_score'', field Score Score_update storeFloat),
      (''_source'', field Source Source_update storeRawMessage)]"

definition unmarshalHit :: "EsSearchHit storer" where
  "unmarshalHit = unmarshalStruct ''search.EsSearchHit'' EsSearchHit_fields"

text \<open>
  A JSON array stored into a \<^verbatim>\<open>[]EsSearchHit\<close>. The decoder does not clear the slice
  first: the element at each position is decoded into what the backing array holds at
  that position (the old element, or one left behind the old length), and into a zero
  value beyond the backing array. What the array does not reach stays behind the new
  length. An empty array makes a new empty slice.
\<close>

fun decodeElems ::
  "json list \<Rightarrow> EsSearchHit list \<Rightarrow> error option \<Rightarrow> EsSearchHit list \<times> error option" where
  "decodeElems [] backing saved = ([], saved)"
| "decodeElems (v # vs) backing saved =
     (case unmarshalHit v (case backing of [] \<Rightarrow> zeroEsSearchHit | b # bs \<Rightarrow> b) of
        (h, e) \<Rightarrow>
          (case decodeElems vs (tl backing) (saveError saved e) of
             (hs, saved') \<Rightarrow> (h # hs, saved')))"

definition storeHitList :: "EsSearchHit slice storer" where
  "storeHitList v cur =
     (case v of
        JNull \<Rightarrow> (\<lparr>elems = [], spare = []\<rparr>, None)
      | JArray vs \<Rightarrow>
          (if vs = [] then (\<lparr>elems = [], spare = []\<rparr>, None)
           else (case decodeElems vs (elems cur @ spare cur) None of
                   (hs, e) \<Rightarrow>
                     (\<lparr>elems = hs, spare = drop (length vs) (elems cur @ spare cur)\<rparr>, e)))
      | _ \<Rightarrow> (cur, Some (UnmarshalTypeError (jsonKind v) ''[]search.EsSearchHit'')))"

text \<open>
  \<^verbatim>\<open>
  type EsSearchHits struct {
      Total struct { // not used
          Value    int
          Relation string
      } `json:"total"`
      MaxScore float64       `json:"max_score"`
      Hits     []EsSearchHit `json:"hits"`
  }
  \<close>
\<close>

definition EsSearchHitsTotal_fields :: "(string \<times> EsSearchHitsTotal storer) list" where
  "EsSearchHitsTotal_fields =
     [(''Value'', field Value Value_update storeInt),
      (''Relation'', field Relation Relation_update storeString)]"

definition unmarshalTotal :: "EsSearchHitsTotal storer" where
  "unmarshalTotal =
     unmarshalStruct ''struct { Value int; Relation string }'' EsSearchHitsTotal_fields"

definition EsSearchHits_fields :: "(string \<times> EsSearchHits storer) list" where
  "EsSearchHits_fields =
     [(''total'', field Total Total_update unmarshalTotal),
      (''max_score'', field MaxScore MaxScore_update storeFloat),
      (''hits'', field HitList HitList_update storeHitList)]"

definition unmarshalHits :: "EsSearchHits storer" where
  "unmarshalHits = unmarshalStruct ''search.EsSearchHits'' EsSearchHits_fields"

text \<open>
  \<^verbatim>\<open>
  type EsSearchResponse struct {
      Took     int  `json:"took"`
      TimedOut bool `json:"timed_out"`
      Hits EsSearchHits `json:"hits"`
  }
  \<close>
\<close>

definition EsSearchResponse_fields :: "(string \<times> EsSearchResponse storer) list" where
  "EsSearchResponse_fields =
     [(''took'', field Took Took_update storeInt),
      (''timed_out'', field TimedOut TimedOut_update storeBool),
      (''hits'', field Hits Hits_update unmarshalHits)]"

definition unmarshal :: "EsSearchResponse storer" where
  "unmarshal = unmarshalStruct ''search.EsSearchResponse'' EsSearchResponse_fields"

text \<open>The whole \<^verbatim>\<open>Decode\<close>: a body that is not JSON is rejected before anything is stored.\<close>

fun jsonDecode :: "http_body \<Rightarrow> EsSearchResponse \<Rightarrow> EsSearchResponse \<times> error option" where
  "jsonDecode Malformed out = (out, Some SyntaxError)"
| "jsonDecode (WellFormed v) out = unmarshal v out"

subsection \<open>doSearch\<close>

text \<open>
  \<^verbatim>\<open>
  func doSearch(ctx context.Context, escli *es.Client, index string, query interface{})
          (*EsSearchResponse, error) {
      var buf bytes.Buffer
      if err := json.NewEncoder(&buf).Encode(query); err != nil {
          log.Fatalf("Error encoding query: %s", err)
      }
      slog.Warn("sending query", "index", index, "query", query)
      res, err := escli.Search(
          escli.Search.WithContext(ctx),
          escli.Search.WithIndex(index),
          escli.Search.WithBody(&buf),
          escli.Search.WithTrackTotalHits(false),
      )
      if err != nil {
          log.Fatalf("Error getting response: %s", err)
      }
      defer res.Body.Close()
      var out EsSearchResponse
      if err := json.NewDecoder(res.Body).Decode(&out); err != nil {
          return nil, fmt.Errorf("decoding search response: %w", err)
      }
      return &out, nil
  }
  \<close>
  The engine client \<^verbatim>\<open>escli\<close> is an \<open>env\<close>. The last argument is the list of effects
  so far; the function returns it with its own effects appended.
\<close>

definition doSearch ::
  "'ctx \<Rightarrow> 'ctx env \<Rightarrow> string \<Rightarrow> qval \<Rightarrow> 'ctx event list
     \<Rightarrow> search_result \<times> 'ctx event list" where
  "doSearch ctx escli index query w =
     (case jsonEncode escli query of
        Inl err \<Rightarrow> (Fatalf ''Error encoding query: %s'' err, w)
      | Inr buf \<Rightarrow>
          (let w1 = w @ [SlogWarn ''sending query'' index query];
               req = \<lparr>req_Context = ctx, req_Index = [index], req_Body = buf,
                      req_TrackTotalHits = Some False\<rparr>;
               w2 = w1 @ [EngineSearch req]
           in case esSearch escli req of
                Inl err \<Rightarrow> (Fatalf ''Error getting response: %s'' err, w2)
              | Inr res \<Rightarrow>
                  (case jsonDecode (res_Body res) zeroEsSearchResponse of
                     (out, Some err) \<Rightarrow>
                       (Return (Inl (Wrapf ''decoding search response: '' err)),
                        w2 @ [BodyClose])
                   | (out, None) \<Rightarrow> (Return (Inr out), w2 @ [BodyClose]))))"

subsection \<open>The four public operations\<close>

text \<open>
  Each operation builds its query as a map literal and hands it to \<^verbatim>\<open>doSearch\<close>. The
  literal of each is a definition of its own, named after the operation.
\<close>

text \<open>
  \<^verbatim>\<open>
  query := map[string]interface{}{
      "sort": map[string]any{"created_at": map[string]any{"order": "desc"}},
      "query": map[string]interface{}{
          "match": map[string]interface{}{
              "everything": map[string]interface{}{"query": q}}},
      "size": size,
      "from": offset,
  }
  \<close>
\<close>

definition DoSearchPosts_query :: "string \<Rightarrow> go_int \<Rightarrow> go_int \<Rightarrow> qval" where
  "DoSearchPosts_query q offset size' =
     QMap [
       (''sort'', QMap [(''created_at'', QMap [(''order'', QString ''desc'')])]),
       (''query'', QMap [
          (''match'', QMap [(''everything'', QMap [(''query'', QString q)])])]),
       (''size'', QInt size'),
       (''from'', QInt offset)]"

text \<open>
  \<^verbatim>\<open>
  func DoSearchPosts(ctx, escli, index, q string, offset, size int) (*EsSearchResponse, error) {
      if err := checkParams(offset, size); err != nil {
          return nil, err
      }
      query := ...
      return doSearch(ctx, escli, index, query)
  }
  \<close>
\<close>

definition DoSearchPosts ::
  "'ctx \<Rightarrow> 'ctx env \<Rightarrow> string \<Rightarrow> string \<Rightarrow> go_int \<Rightarrow> go_int \<Rightarrow> 'ctx event list
     \<Rightarrow> search_result \<times> 'ctx event list" where
  "DoSearchPosts ctx escli index q offset size' w =
     (case checkParams offset size' of
        Some err \<Rightarrow> (Return (Inl err), w)
      | None \<Rightarrow> doSearch ctx escli index (DoSearchPosts_query q offset size') w)"

text \<open>
  \<^verbatim>\<open>
  basic := map[string]interface{}{
      "match": map[string]interface{}{
          "everything": map[string]interface{}{"query": q}}}
  query := map[string]interface{}{
      "query": map[string]interface{}{
          "bool": map[string]interface{}{
              "must": basic,
              "should": []interface{}{
                  map[string]interface{}{"term": map[string]interface{}{"has_avatar": true}},
                  map[string]interface{}{"term": map[string]interface{}{"has_banner": true}},
              },
              "boost": 1.0,
          }},
      "size": size,
      "from": offset,
  }
  \<close>
\<close>

definition DoSearchProfiles_query :: "string \<Rightarrow> go_int \<Rightarrow> go_int \<Rightarrow> qval" where
  "DoSearchProfiles_query q offset size' =
     (let basic = QMap [
            (''match'', QMap [(''everything'', QMap [(''query'', QString q)])])]
      in QMap [
           (''query'', QMap [
              (''bool'', QMap [
                 (''must'', basic),
                 (''should'', QSlice [
                    QMap [(''term'', QMap [(''has_avatar'', QBool True)])],
                    QMap [(''term'', QMap [(''has_banner'', QBool True)])]]),
                 (''boost'', QFloat (Float64 1))])]),
           (''size'', QInt size'),
           (''from'', QInt offset)])"

definition DoSearchProfiles ::
  "'ctx \<Rightarrow> 'ctx env \<Rightarrow> string \<Rightarrow> string \<Rightarrow> go_int \<Rightarrow> go_int \<Rightarrow> 'ctx event list
     \<Rightarrow> search_result \<times> 'ctx event list" where
  "DoSearchProfiles ctx escli index q offset size' w =
     (case checkParams offset size' of
        Some err \<Rightarrow> (Return (Inl err), w)
      | None \<Rightarrow> doSearch ctx escli index (DoSearchProfiles_query q offset size') w)"

text \<open>
  \<^verbatim>\<open>
  func DoSearchProfilesTypeahead(ctx, escli, index, q string) (*EsSearchResponse, error) {
      query := map[string]interface{}{
          "query": map[string]interface{}{
              "multi_match": map[string]interface{}{
                  "query": q,
                  "type":  "bool_prefix",
                  "fields": []string{"typeahead", "typeahead._2gram", "typeahead._3gram"},
              }},
          "size": 30,
      }
      return doSearch(ctx, escli, index, query)
  }
  \<close>
\<close>

definition DoSearchProfilesTypeahead_query :: "string \<Rightarrow> qval" where
  "DoSearchProfilesTypeahead_query q =
     QMap [
       (''query'', QMap [
          (''multi_match'', QMap [
             (''query'', QString q),
             (''type'', QString ''bool_prefix''),
             (''fields'',
                QStrings [''typeahead'', ''typeahead._2gram'', ''typeahead._3gram''])])]),
       (''size'', QInt 30)]"

definition DoSearchProfilesTypeahead ::
  "'ctx \<Rightarrow> 'ctx env \<Rightarrow> string \<Rightarrow> string \<Rightarrow> 'ctx event list
     \<Rightarrow> search_result \<times> 'ctx event list" where
  "DoSearchProfilesTypeahead ctx escli index q w =
     doSearch ctx escli index (DoSearchProfilesTypeahead_query q) w"

text \<open>
  \<^verbatim>\<open>
  func DoSearchGeneric(ctx, escli, index, q string) (*EsSearchResponse, error) {
      query := map[string]interface{}{
          "query": map[string]interface{}{
              "query_string": map[string]interface{}{
                  "query":                  q,
                  "default_operator":       "and",
                  "analyze_wildcard":       true,
                  "allow_leading_wildcard": false,
                  "lenient":                true,
                  "default_field":          "everything",
              }}}
      return doSearch(ctx, escli, index, query)
  }
  \<close>
\<close>

definition DoSearchGeneric_query :: "string \<Rightarrow> qval" where
  "DoSearchGeneric_query q =
     QMap [
       (''query'', QMap [
          (''query_string'', QMap [
             (''query'', QString q),
             (''default_operator'', QString ''and''),
             (''analyze_wildcard'', QBool True),
             (''allow_leading_wildcard'', QBool False),
             (''lenient'', QBool True),
             (''default_field'', QString ''everything'')])])]"

definition DoSearchGeneric ::
  "'ctx \<Rightarrow> 'ctx env \<Rightarrow> string \<Rightarrow> string \<Rightarrow> 'ctx event list
     \<Rightarrow> search_result \<times> 'ctx event list" where
  "DoSearchGeneric ctx escli index q w =
     doSearch ctx escli index (DoSearchGeneric_query q) w"

subsection \<open>Reading the list of effects\<close>

text \<open>The search requests among a list of effects, in order.\<close>

fun engineRequests :: "'ctx event list \<Rightarrow> 'ctx SearchRequest list" where
  "engineRequests [] = []"
| "engineRequests (EngineSearch r # es) = r # engineRequests es"
| "engineRequests (e # es) = engineRequests es"

text \<open>Concrete engines for the examples: one that cannot be reached, one that answers.\<close>

definition engineDown :: "unit env" where
  "engineDown =
     \<lparr>jsonEncode = (\<lambda>query. Inr ''(the encoded query)''),
      esSearch = (\<lambda>req. Inl (LibError ''connection refused''))\<rparr>"

definition engineAnswering :: "nat \<Rightarrow> http_body \<Rightarrow> unit env" where
  "engineAnswering code body =
     \<lparr>jsonEncode = (\<lambda>query. Inr ''(the encoded query)''),
      esSearch = (\<lambda>req. Inr \<lparr>res_StatusCode = code, res_Body = body\<rparr>)\<rparr>"


subsection \<open>The shape of a response\<close>














section \<open>Properties\<close>

subsection \<open>Auxiliary facts\<close>

text \<open>Inside the accepted range the machine sum is the mathematical one.\<close>

lemma sint_add_in_range:
  fixes a b :: go_int
  assumes "0 \<le> sint a" "sint a \<le> 1000" "0 \<le> sint b" "sint b \<le> 1000"
  shows "sint (a + b) = sint a + sint b"
  using assms by (simp add: sint_word_ariths signed_take_bit_int_eq_self)

subsection \<open>C1: the parameter check\<close>

text \<open>
  C1, as stated, fails at one of its boundary values: for \<open>offset = 1000\<close> and
  \<open>size = 4000\<close> the sum is 5000, within the bound, and yet \<^verbatim>\<open>checkParams\<close> returns
  its error, because \<open>size\<close> is above 1000.
\<close>

theorem checkParams_1000_4000_rejected:
  "sint (1000 :: go_int) + sint (4000 :: go_int) \<le> 5000 \<and>
   checkParams 1000 4000 = Some (Errorf ''disallowed size/offset parameters'')"
  by (simp add: checkParams_def)

text \<open>
  C1 (amended): for every pair of machine integers, \<^verbatim>\<open>checkParams\<close> succeeds exactly
  when \<open>offset + size \<le> 5000\<close>, \<open>size \<le> 1000\<close>, \<open>offset \<le> 1000\<close>, \<open>offset \<ge> 0\<close> and
  \<open>size \<ge> 0\<close> (the sum being the mathematical one), and returns its error for every other
  pair. The pairs \<open>(0, 1000)\<close> and \<open>(1000, 0)\<close> succeed; an offset of 1001 or of -1, a size
  of 1001 or of -1, and the pairs \<open>(1000, 4001)\<close> and \<open>(1000, 4000)\<close> fail.
\<close>

theorem checkParams_accepts_iff:
  "checkParams offset size' =
     (if sint offset + sint size' \<le> 5000 \<and> sint size' \<le> 1000 \<and> sint offset \<le> 1000
         \<and> 0 \<le> sint offset \<and> 0 \<le> sint size'
      then None else Some (Errorf ''disallowed size/offset parameters''))
   \<and> checkParams 0 1000 = None
   \<and> checkParams 1000 0 = None
   \<and> checkParams 1001 size' \<noteq> None
   \<and> checkParams offset 1001 \<noteq> None
   \<and> checkParams (- 1) size' \<noteq> None
   \<and> checkParams offset (- 1) \<noteq> None
   \<and> checkParams 1000 4001 \<noteq> None
   \<and> checkParams 1000 4000 \<noteq> None"
proof -
  have "checkParams offset size' =
     (if sint offset + sint size' \<le> 5000 \<and> sint size' \<le> 1000 \<and> sint offset \<le> 1000
         \<and> 0 \<le> sint offset \<and> 0 \<le> sint size'
      then None else Some (Errorf ''disallowed size/offset parameters''))"
    unfolding checkParams_def using sint_add_in_range [of offset size'] by auto
  moreover have "checkParams 0 1000 = None" "checkParams 1000 0 = None"
    "checkParams 1001 size' \<noteq> None" "checkParams offset 1001 \<noteq> None"
    "checkParams (- 1) size' \<noteq> None" "checkParams offset (- 1) \<noteq> None"
    "checkParams 1000 4001 \<noteq> None" "checkParams 1000 4000 \<noteq> None"
    by (simp_all add: checkParams_def)
  ultimately show ?thesis by blast
qed

subsection \<open>What doSearch returns and what it does\<close>

text \<open>Once the query is encoded and the engine has answered, the decoder decides.\<close>

lemma doSearch_returns:
  assumes "jsonEncode escli query = Inr buf"
    and "esSearch escli \<lparr>req_Context = ctx, req_Index = [index], req_Body = buf,
                      req_TrackTotalHits = Some False\<rparr> = Inr res"
  shows "fst (doSearch ctx escli index query w) =
     (case snd (jsonDecode (res_Body res) zeroEsSearchResponse) of
        Some err \<Rightarrow> Return (Inl (Wrapf ''decoding search response: '' err))
      | None \<Rightarrow> Return (Inr (fst (jsonDecode (res_Body res) zeroEsSearchResponse))))"
  using assms by (simp add: doSearch_def Let_def split: prod.splits option.splits)

text \<open>An engine that cannot be reached ends the process, whatever the query.\<close>

lemma doSearch_transport_failure:
  assumes "jsonEncode escli query = Inr buf"
    and "esSearch escli \<lparr>req_Context = ctx, req_Index = [index], req_Body = buf,
                      req_TrackTotalHits = Some False\<rparr> = Inl err"
  shows "fst (doSearch ctx escli index query w) = Fatalf ''Error getting response: %s'' err"
  using assms by (simp add: doSearch_def Let_def)

text \<open>The effects of a call come after the effects so far.\<close>

lemma doSearch_effects_prefix:
  "take (length w) (snd (doSearch ctx escli index query w)) = w"
  by (simp add: doSearch_def Let_def split: sum.splits prod.splits option.splits)

text \<open>Every request of a call has the track-total-hits flag set to false.\<close>

lemma doSearch_effects_flag:
  "list_all (\<lambda>r. req_TrackTotalHits r = Some False)
     (engineRequests (drop (length w) (snd (doSearch ctx escli index query w))))"
  by (simp add: doSearch_def Let_def split: sum.splits prod.splits option.splits)

text \<open>An encoded query is sent, once, as the body of the request.\<close>

lemma doSearch_sends:
  assumes "jsonEncode escli query = Inr buf"
  shows "engineRequests (drop (length w) (snd (doSearch ctx escli index query w))) =
     [\<lparr>req_Context = ctx, req_Index = [index], req_Body = buf,
       req_TrackTotalHits = Some False\<rparr>]"
  using assms by (simp add: doSearch_def Let_def split: sum.splits prod.splits option.splits)

text \<open>
  The status code of the answer is not read: an answer with status 503 and the body
  \<^verbatim>\<open>{}\<close> is decoded and returned like any other.
\<close>

lemma doSearch_decodes_non_2xx:
  "fst (doSearch () (engineAnswering 503 (WellFormed (JObject []))) ''posts''
      (DoSearchGeneric_query ''cat'') []) = Return (Inr zeroEsSearchResponse)"
  by (simp add: doSearch_def engineAnswering_def unmarshal_def unmarshalStruct_def)

subsection \<open>C2: a failing engine call\<close>

text \<open>
  C2 asks for a returned error when the call to the engine fails. The code does not
  return: with an engine that refuses the connection, each of the four operations ends
  the process in \<^verbatim>\<open>log.Fatalf("Error getting response: %s", err)\<close>, after the request
  was sent.
\<close>

theorem transport_failure_ends_process:
  "fst (DoSearchPosts () engineDown ''posts'' ''cat'' 0 20 []) =
      Fatalf ''Error getting response: %s'' (LibError ''connection refused'')
   \<and> fst (DoSearchProfiles () engineDown ''profiles'' ''cat'' 0 20 []) =
      Fatalf ''Error getting response: %s'' (LibError ''connection refused'')
   \<and> fst (DoSearchProfilesTypeahead () engineDown ''profiles'' ''cat'' []) =
      Fatalf ''Error getting response: %s'' (LibError ''connection refused'')
   \<and> DoSearchGeneric () engineDown ''posts'' ''cat'' [] =
      (Fatalf ''Error getting response: %s'' (LibError ''connection refused''),
       [SlogWarn ''sending query'' ''posts'' (DoSearchGeneric_query ''cat''),
        EngineSearch \<lparr>req_Context = (), req_Index = [''posts''],
          req_Body = ''(the encoded query)'', req_TrackTotalHits = Some False\<rparr>])"
  by (simp add: DoSearchPosts_def DoSearchProfiles_def DoSearchProfilesTypeahead_def
      DoSearchGeneric_def checkParams_def doSearch_def engineDown_def)

subsection \<open>C3: the query of DoSearchPosts\<close>

text \<open>
  C3: for every query text \<open>q\<close> and every \<open>(offset, size)\<close> that \<^verbatim>\<open>checkParams\<close>
  accepts, \<^verbatim>\<open>DoSearchPosts\<close> hands \<^verbatim>\<open>doSearch\<close> a query whose \<^verbatim>\<open>sort\<close> is the single
  field \<^verbatim>\<open>created_at\<close> with order \<^verbatim>\<open>"desc"\<close> (so there is no sort on \<^verbatim>\<open>_score\<close>),
  whose \<^verbatim>\<open>query.match.everything.query\<close> is \<open>q\<close>, whose \<^verbatim>\<open>size\<close> is the caller's size
  and whose \<^verbatim>\<open>from\<close> is the caller's offset; once encoded, that query is the body of the
  one request sent to the engine.
\<close>

theorem DoSearchPosts_query_shape:
  assumes "checkParams offset size' = None"
  shows "DoSearchPosts ctx escli index q offset size' w =
           doSearch ctx escli index (DoSearchPosts_query q offset size') w
     \<and> qget ''sort'' (DoSearchPosts_query q offset size') =
           Some (QMap [(''created_at'', QMap [(''order'', QString ''desc'')])])
     \<and> qpath [''sort'', ''created_at'', ''order''] (DoSearchPosts_query q offset size') =
           Some (QString ''desc'')
     \<and> qpath [''sort'', ''_score''] (DoSearchPosts_query q offset size') = None
     \<and> qpath [''query'', ''match'', ''everything'', ''query'']
           (DoSearchPosts_query q offset size') = Some (QString q)
     \<and> qget ''size'' (DoSearchPosts_query q offset size') = Some (QInt size')
     \<and> qget ''from'' (DoSearchPosts_query q offset size') = Some (QInt offset)
     \<and> (\<forall>buf. jsonEncode escli (DoSearchPosts_query q offset size') = Inr buf \<longrightarrow>
           engineRequests
             (drop (length w) (snd (DoSearchPosts ctx escli index q offset size' w))) =
           [\<lparr>req_Context = ctx, req_Index = [index], req_Body = buf,
             req_TrackTotalHits = Some False\<rparr>])"
proof -
  have run: "DoSearchPosts ctx escli index q offset size' w =
      doSearch ctx escli index (DoSearchPosts_query q offset size') w"
    using assms by (simp add: DoSearchPosts_def)
  have shape: "qget ''sort'' (DoSearchPosts_query q offset size') =
           Some (QMap [(''created_at'', QMap [(''order'', QString ''desc'')])])"
    "qpath [''sort'', ''created_at'', ''order''] (DoSearchPosts_query q offset size') =
           Some (QString ''desc'')"
    "qpath [''sort'', ''_score''] (DoSearchPosts_query q offset size') = None"
    "qpath [''query'', ''match'', ''everything'', ''query'']
           (DoSearchPosts_query q offset size') = Some (QString q)"
    "qget ''size'' (DoSearchPosts_query q offset size') = Some (QInt size')"
    "qget ''from'' (DoSearchPosts_query q offset size') = Some (QInt offset)"
    by (simp_all add: DoSearchPosts_query_def)
  from run shape show ?thesis by (simp add: doSearch_sends)
qed

text \<open>The scenario of the specification: the text \<open>cat\<close>, offset 0, size 20.\<close>

theorem DoSearchPosts_query_shape_witness:
  "checkParams 0 20 = None
   \<and> jsonEncode (engineAnswering 200 (WellFormed (JObject [])))
        (DoSearchPosts_query ''cat'' 0 20) = Inr ''(the encoded query)''
   \<and> qpath [''sort'', ''created_at'', ''order''] (DoSearchPosts_query ''cat'' 0 20) =
        Some (QString ''desc'')
   \<and> qpath [''query'', ''match'', ''everything'', ''query''] (DoSearchPosts_query ''cat'' 0 20) =
        Some (QString ''cat'')
   \<and> qget ''size'' (DoSearchPosts_query ''cat'' 0 20) = Some (QInt 20)
   \<and> qget ''from'' (DoSearchPosts_query ''cat'' 0 20) = Some (QInt 0)
   \<and> engineRequests (snd (DoSearchPosts ()
        (engineAnswering 200 (WellFormed (JObject []))) ''posts'' ''cat'' 0 20 [])) =
        [\<lparr>req_Context = (), req_Index = [''posts''], req_Body = ''(the encoded query)'',
          req_TrackTotalHits = Some False\<rparr>]"
proof -
  have ok: "checkParams 0 20 = None"
    by (simp add: checkParams_def)
  have enc: "jsonEncode (engineAnswering 200 (WellFormed (JObject [])))
        (DoSearchPosts_query ''cat'' 0 20) = Inr ''(the encoded query)''"
    by (simp add: engineAnswering_def)
  show ?thesis
    using ok enc
      DoSearchPosts_query_shape [OF ok, of "()" "engineAnswering 200 (WellFormed (JObject []))"
        "''posts''" "''cat''" "[]"]
    by auto
qed

subsection \<open>C4: the query of DoSearchProfilesTypeahead\<close>

text \<open>
  C4: for every query text, \<^verbatim>\<open>DoSearchProfilesTypeahead\<close> goes straight to
  \<^verbatim>\<open>doSearch\<close> (it takes no offset and no size, checks none, and never returns the
  error of \<^verbatim>\<open>checkParams\<close>) with a query whose only keys are \<^verbatim>\<open>query\<close> and \<^verbatim>\<open>size\<close>:
  the size is 30, there is no \<^verbatim>\<open>from\<close>, and the query is a \<^verbatim>\<open>multi_match\<close> of type
  \<^verbatim>\<open>bool_prefix\<close> on the text over exactly the fields \<^verbatim>\<open>typeahead\<close>,
  \<^verbatim>\<open>typeahead._2gram\<close> and \<^verbatim>\<open>typeahead._3gram\<close>.
\<close>

theorem DoSearchProfilesTypeahead_query_shape:
  "DoSearchProfilesTypeahead ctx escli index q w =
      doSearch ctx escli index (DoSearchProfilesTypeahead_query q) w
   \<and> fst (DoSearchProfilesTypeahead ctx escli index q w) \<noteq>
      Return (Inl (Errorf ''disallowed size/offset parameters''))
   \<and> qkeys (DoSearchProfilesTypeahead_query q) = [''query'', ''size'']
   \<and> qget ''size'' (DoSearchProfilesTypeahead_query q) = Some (QInt 30)
   \<and> qget ''from'' (DoSearchProfilesTypeahead_query q) = None
   \<and> qget ''query'' (DoSearchProfilesTypeahead_query q) =
        Some (QMap [(''multi_match'', QMap [
          (''query'', QString q),
          (''type'', QString ''bool_prefix''),
          (''fields'', QStrings [''typeahead'', ''typeahead._2gram'', ''typeahead._3gram''])])])
   \<and> qpath [''query'', ''multi_match'', ''type''] (DoSearchProfilesTypeahead_query q) =
        Some (QString ''bool_prefix'')
   \<and> qpath [''query'', ''multi_match'', ''fields''] (DoSearchProfilesTypeahead_query q) =
        Some (QStrings [''typeahead'', ''typeahead._2gram'', ''typeahead._3gram''])
   \<and> qpath [''query'', ''multi_match'', ''query''] (DoSearchProfilesTypeahead_query q) =
        Some (QString q)"
  by (simp add: DoSearchProfilesTypeahead_def DoSearchProfilesTypeahead_query_def
      doSearch_def Let_def split: sum.splits prod.splits option.splits)

subsection \<open>C5: the query of DoSearchProfiles\<close>

text \<open>
  C5: for every query text \<open>q\<close> and every \<open>(offset, size)\<close> that \<^verbatim>\<open>checkParams\<close>
  accepts, \<^verbatim>\<open>DoSearchProfiles\<close> hands \<^verbatim>\<open>doSearch\<close> a \<^verbatim>\<open>bool\<close> query whose \<^verbatim>\<open>must\<close>
  is a match of \<open>q\<close> on the field \<^verbatim>\<open>everything\<close>, whose \<^verbatim>\<open>should\<close> is exactly the two
  term clauses \<^verbatim>\<open>has_avatar: true\<close> and \<^verbatim>\<open>has_banner: true\<close>, and whose \<^verbatim>\<open>boost\<close> is
  1.0. The two terms stand under \<^verbatim>\<open>should\<close> only: the \<^verbatim>\<open>bool\<close> query has no
  \<^verbatim>\<open>filter\<close>, no \<^verbatim>\<open>must_not\<close> and no \<^verbatim>\<open>minimum_should_match\<close>.
\<close>

theorem DoSearchProfiles_query_shape:
  assumes "checkParams offset size' = None"
  shows "DoSearchProfiles ctx escli index q offset size' w =
           doSearch ctx escli index (DoSearchProfiles_query q offset size') w
     \<and> qpath [''query'', ''bool'', ''must''] (DoSearchProfiles_query q offset size') =
           Some (QMap [(''match'', QMap [(''everything'', QMap [(''query'', QString q)])])])
     \<and> qpath [''query'', ''bool'', ''should''] (DoSearchProfiles_query q offset size') =
           Some (QSlice [QMap [(''term'', QMap [(''has_avatar'', QBool True)])],
                         QMap [(''term'', QMap [(''has_banner'', QBool True)])]])
     \<and> qpath [''query'', ''bool'', ''boost''] (DoSearchProfiles_query q offset size') =
           Some (QFloat (Float64 1))
     \<and> qpath [''query'', ''bool'', ''filter''] (DoSearchProfiles_query q offset size') = None
     \<and> qpath [''query'', ''bool'', ''must_not''] (DoSearchProfiles_query q offset size') = None
     \<and> qpath [''query'', ''bool'', ''minimum_should_match'']
           (DoSearchProfiles_query q offset size') = None
     \<and> qget ''size'' (DoSearchProfiles_query q offset size') = Some (QInt size')
     \<and> qget ''from'' (DoSearchProfiles_query q offset size') = Some (QInt offset)"
  using assms by (simp add: DoSearchProfiles_def DoSearchProfiles_query_def)

theorem DoSearchProfiles_query_shape_witness:
  "checkParams 40 20 = None
   \<and> DoSearchProfiles () engineDown ''profiles'' ''alice'' 40 20 [] =
       doSearch () engineDown ''profiles'' (DoSearchProfiles_query ''alice'' 40 20) []
   \<and> qpath [''query'', ''bool'', ''must''] (DoSearchProfiles_query ''alice'' 40 20) =
       Some (QMap [(''match'', QMap [(''everything'', QMap [(''query'', QString ''alice'')])])])
   \<and> qpath [''query'', ''bool'', ''should''] (DoSearchProfiles_query ''alice'' 40 20) =
       Some (QSlice [QMap [(''term'', QMap [(''has_avatar'', QBool True)])],
                     QMap [(''term'', QMap [(''has_banner'', QBool True)])]])
   \<and> qpath [''query'', ''bool'', ''boost''] (DoSearchProfiles_query ''alice'' 40 20) =
       Some (QFloat (Float64 1))
   \<and> qget ''size'' (DoSearchProfiles_query ''alice'' 40 20) = Some (QInt 20)
   \<and> qget ''from'' (DoSearchProfiles_query ''alice'' 40 20) = Some (QInt 40)"
proof -
  have ok: "checkParams 40 20 = None"
    by (simp add: checkParams_def)
  show ?thesis
    using ok DoSearchProfiles_query_shape [OF ok, of "()" engineDown "''profiles''" "''alice''" "[]"]
    by simp
qed

subsection \<open>C6: the query of DoSearchGeneric\<close>

text \<open>
  C6: for every query text \<open>q\<close>, \<^verbatim>\<open>DoSearchGeneric\<close> hands \<^verbatim>\<open>doSearch\<close> a
  \<^verbatim>\<open>query_string\<close> query whose \<^verbatim>\<open>query\<close> is \<open>q\<close> unchanged and whose other settings are
  exactly \<^verbatim>\<open>default_operator\<close> \<^verbatim>\<open>"and"\<close>, \<^verbatim>\<open>analyze_wildcard\<close> true,
  \<^verbatim>\<open>allow_leading_wildcard\<close> false, \<^verbatim>\<open>lenient\<close> true and \<^verbatim>\<open>default_field\<close>
  \<^verbatim>\<open>"everything"\<close>.
\<close>

theorem DoSearchGeneric_query_shape:
  "DoSearchGeneric ctx escli index q w =
      doSearch ctx escli index (DoSearchGeneric_query q) w
   \<and> DoSearchGeneric_query q =
      QMap [(''query'', QMap [(''query_string'', QMap [
        (''query'', QString q),
        (''default_operator'', QString ''and''),
        (''analyze_wildcard'', QBool True),
        (''allow_leading_wildcard'', QBool False),
        (''lenient'', QBool True),
        (''default_field'', QString ''everything'')])])]
   \<and> qpath [''query'', ''query_string'', ''query''] (DoSearchGeneric_query q) = Some (QString q)
   \<and> qpath [''query'', ''query_string'', ''default_operator''] (DoSearchGeneric_query q) =
        Some (QString ''and'')
   \<and> qpath [''query'', ''query_string'', ''analyze_wildcard''] (DoSearchGeneric_query q) =
        Some (QBool True)
   \<and> qpath [''query'', ''query_string'', ''allow_leading_wildcard''] (DoSearchGeneric_query q) =
        Some (QBool False)
   \<and> qpath [''query'', ''query_string'', ''lenient''] (DoSearchGeneric_query q) =
        Some (QBool True)
   \<and> qpath [''query'', ''query_string'', ''default_field''] (DoSearchGeneric_query q) =
        Some (QString ''everything'')"
  by (simp add: DoSearchGeneric_def DoSearchGeneric_query_def)

subsection \<open>C7: rejected parameters\<close>

text \<open>
  C7: for every \<open>(offset, size)\<close> that \<^verbatim>\<open>checkParams\<close> rejects, \<^verbatim>\<open>DoSearchPosts\<close> and
  \<^verbatim>\<open>DoSearchProfiles\<close> return \<^verbatim>\<open>(nil, err)\<close> with the error of the check and leave
  the list of effects as it was: no query was logged, no request was sent to the engine.
\<close>

theorem rejected_params_return_at_once:
  assumes "checkParams offset size' = Some err"
  shows "DoSearchPosts ctx escli index q offset size' w = (Return (Inl err), w)
     \<and> DoSearchProfiles ctx escli index q offset size' w = (Return (Inl err), w)
     \<and> engineRequests
         (drop (length w) (snd (DoSearchPosts ctx escli index q offset size' w))) = []
     \<and> engineRequests
         (drop (length w) (snd (DoSearchProfiles ctx escli index q offset size' w))) = []"
  using assms by (simp add: DoSearchPosts_def DoSearchProfiles_def)

theorem rejected_params_return_at_once_witness:
  "checkParams 0 1001 = Some (Errorf ''disallowed size/offset parameters'')
   \<and> DoSearchPosts () (engineAnswering 200 (WellFormed (JObject []))) ''posts'' ''cat'' 0 1001 [] =
       (Return (Inl (Errorf ''disallowed size/offset parameters'')), [])
   \<and> DoSearchProfiles () (engineAnswering 200 (WellFormed (JObject []))) ''posts'' ''cat''
       0 1001 [] =
       (Return (Inl (Errorf ''disallowed size/offset parameters'')), [])"
proof -
  have bad: "checkParams 0 1001 = Some (Errorf ''disallowed size/offset parameters'')"
    by (simp add: checkParams_def)
  show ?thesis
    using bad
      rejected_params_return_at_once [OF bad, of "()"
        "engineAnswering 200 (WellFormed (JObject []))" "''posts''" "''cat''" "[]"]
    by simp
qed

subsection \<open>C8: a response that does not decode\<close>

text \<open>
  C8: whenever the engine has answered and the decoder returns an error for the body,
  \<^verbatim>\<open>doSearch\<close> returns \<^verbatim>\<open>(nil, err)\<close> to its caller, \<open>err\<close> being the decoder's error
  wrapped with the context \<^verbatim>\<open>"decoding search response: "\<close>; the call does not end the
  process, which is what it does when the engine call itself fails.
\<close>

theorem decode_failure_is_returned:
  assumes "jsonEncode escli query = Inr buf"
    and "esSearch escli \<lparr>req_Context = ctx, req_Index = [index], req_Body = buf,
                      req_TrackTotalHits = Some False\<rparr> = Inr res"
    and "snd (jsonDecode (res_Body res) zeroEsSearchResponse) = Some err"
  shows "fst (doSearch ctx escli index query w) =
           Return (Inl (Wrapf ''decoding search response: '' err))
     \<and> (\<forall>fmt e. fst (doSearch ctx escli index query w) \<noteq> Fatalf fmt e)"
  using assms(3) by (simp add: doSearch_returns [OF assms(1,2)])

text \<open>A body that is not JSON, behind each of the four operations.\<close>

theorem decode_failure_is_returned_witness:
  "jsonEncode (engineAnswering 200 Malformed) (DoSearchGeneric_query ''cat'') =
      Inr ''(the encoded query)''
   \<and> esSearch (engineAnswering 200 Malformed)
        \<lparr>req_Context = (), req_Index = [''posts''], req_Body = ''(the encoded query)'',
         req_TrackTotalHits = Some False\<rparr> =
      Inr \<lparr>res_StatusCode = 200, res_Body = Malformed\<rparr>
   \<and> snd (jsonDecode Malformed zeroEsSearchResponse) =
      Some SyntaxError
   \<and> fst (doSearch () (engineAnswering 200 Malformed) ''posts''
        (DoSearchGeneric_query ''cat'') []) =
      Return (Inl (Wrapf ''decoding search response: '' SyntaxError))
   \<and> fst (DoSearchPosts () (engineAnswering 200 Malformed) ''posts'' ''cat'' 0 20 []) =
      Return (Inl (Wrapf ''decoding search response: '' SyntaxError))
   \<and> fst (DoSearchProfiles () (engineAnswering 200 Malformed) ''posts'' ''cat'' 0 20 []) =
      Return (Inl (Wrapf ''decoding search response: '' SyntaxError))
   \<and> fst (DoSearchProfilesTypeahead () (engineAnswering 200 Malformed) ''posts'' ''cat'' []) =
      Return (Inl (Wrapf ''decoding search response: '' SyntaxError))
   \<and> fst (DoSearchGeneric () (engineAnswering 200 Malformed) ''posts'' ''cat'' []) =
      Return (Inl (Wrapf ''decoding search response: '' SyntaxError))"
proof -
  have enc: "jsonEncode (engineAnswering 200 Malformed) (DoSearchGeneric_query ''cat'') =
      Inr ''(the encoded query)''"
    by (simp add: engineAnswering_def)
  have ans: "esSearch (engineAnswering 200 Malformed)
        \<lparr>req_Context = (), req_Index = [''posts''], req_Body = ''(the encoded query)'',
         req_TrackTotalHits = Some False\<rparr> =
      Inr \<lparr>res_StatusCode = 200, res_Body = Malformed\<rparr>"
    by (simp add: engineAnswering_def)
  have dec: "snd (jsonDecode
        (res_Body \<lparr>res_StatusCode = 200, res_Body = Malformed\<rparr>) zeroEsSearchResponse) =
      Some SyntaxError"
    by simp
  have ops: "fst (DoSearchPosts () (engineAnswering 200 Malformed) ''posts'' ''cat'' 0 20 []) =
      Return (Inl (Wrapf ''decoding search response: '' SyntaxError))"
    "fst (DoSearchProfiles () (engineAnswering 200 Malformed) ''posts'' ''cat'' 0 20 []) =
      Return (Inl (Wrapf ''decoding search response: '' SyntaxError))"
    "fst (DoSearchProfilesTypeahead () (engineAnswering 200 Malformed) ''posts'' ''cat'' []) =
      Return (Inl (Wrapf ''decoding search response: '' SyntaxError))"
    "fst (DoSearchGeneric () (engineAnswering 200 Malformed) ''posts'' ''cat'' []) =
      Return (Inl (Wrapf ''decoding search response: '' SyntaxError))"
    by (simp_all add: DoSearchPosts_def DoSearchProfiles_def DoSearchProfilesTypeahead_def
        DoSearchGeneric_def checkParams_def doSearch_def engineAnswering_def)
  from decode_failure_is_returned [OF enc ans dec, of "[]"]
  have "fst (doSearch () (engineAnswering 200 Malformed) ''posts''
        (DoSearchGeneric_query ''cat'') []) =
      Return (Inl (Wrapf ''decoding search response: '' SyntaxError))"
    by simp
  with enc ans dec ops show ?thesis by simp
qed

subsection \<open>C9: the track-total-hits flag\<close>

text \<open>
  C9: for every input of each of the four operations, every search request among the
  effects the operation adds has its track-total-hits flag set to false.
\<close>

theorem every_dispatch_disables_total_hits:
  "list_all (\<lambda>r. req_TrackTotalHits r = Some False) (engineRequests
      (drop (length w) (snd (DoSearchPosts ctx escli index q offset size' w))))
   \<and> list_all (\<lambda>r. req_TrackTotalHits r = Some False) (engineRequests
      (drop (length w) (snd (DoSearchProfiles ctx escli index q offset size' w))))
   \<and> list_all (\<lambda>r. req_TrackTotalHits r = Some False) (engineRequests
      (drop (length w) (snd (DoSearchProfilesTypeahead ctx escli index q w))))
   \<and> list_all (\<lambda>r. req_TrackTotalHits r = Some False) (engineRequests
      (drop (length w) (snd (DoSearchGeneric ctx escli index q w))))"
  by (simp add: DoSearchPosts_def DoSearchProfiles_def DoSearchProfilesTypeahead_def
      DoSearchGeneric_def doSearch_effects_flag split: option.splits)

text \<open>A run in which the request is there to be looked at.\<close>

theorem every_dispatch_disables_total_hits_witness:
  "engineRequests (snd (DoSearchProfilesTypeahead ()
      (engineAnswering 200 (WellFormed (JObject []))) ''profiles'' ''al'' [])) =
     [\<lparr>req_Context = (), req_Index = [''profiles''], req_Body = ''(the encoded query)'',
       req_TrackTotalHits = Some False\<rparr>]
   \<and> list_all (\<lambda>r. req_TrackTotalHits r = Some False) (engineRequests
      (snd (DoSearchProfilesTypeahead ()
        (engineAnswering 200 (WellFormed (JObject []))) ''profiles'' ''al'' [])))"
proof -
  have sent: "engineRequests (snd (DoSearchProfilesTypeahead ()
      (engineAnswering 200 (WellFormed (JObject []))) ''profiles'' ''al'' [])) =
     [\<lparr>req_Context = (), req_Index = [''profiles''], req_Body = ''(the encoded query)'',
       req_TrackTotalHits = Some False\<rparr>]"
    by (simp add: DoSearchProfilesTypeahead_def doSearch_def engineAnswering_def
        unmarshal_def unmarshalStruct_def)
  from every_dispatch_disables_total_hits
    [of "[]" "()" "engineAnswering 200 (WellFormed (JObject []))" "''profiles''" "''al''"]
  have "list_all (\<lambda>r. req_TrackTotalHits r = Some False) (engineRequests
      (snd (DoSearchProfilesTypeahead ()
        (engineAnswering 200 (WellFormed (JObject []))) ''profiles'' ''al'' [])))"
    by simp
  with sent show ?thesis by blast
qed

subsection \<open>The decoder\<close>

























subsection \<open>C10: well-formed bodies of another shape\<close>




end
